theory Spec2Isabelle
  imports Main
begin

section \<open>A type-erased callable wrapper: \<open>functional/my_function_4.cc\<close>\<close>

text \<open>
  The file builds \<open>Function<Ret(Args...)>\<close>, a handle that owns, through a
  \<open>std::unique_ptr\<close>, one heap-allocated adapter \<open>detail::func_impl\<close> around a payload:
  a function pointer, a functor or a pointer to member function.

  The embedding keeps the heap explicit, since the copy operations are about which
  adapter a handle owns. The type parameters are
  \<^item> \<open>'x\<close> and \<open>'p\<close>: the first argument of the call signature and the remaining ones (the
    pack \<open>Args...\<close> is the pair \<open>'x \<times> 'p\<close>; the member-function adapter splits it
    there; a signature without arguments is the instance \<open>unit \<times> unit\<close>);
  \<^item> \<open>'s\<close>: the objects of functor classes;
  \<^item> \<open>'w\<close>: everything a payload can reach besides its arguments and itself (objects
    behind pointers, \<open>std::cout\<close>);
  \<^item> \<open>'e\<close> and \<open>'r\<close>: the exceptions a payload throws and the values it returns.
  Arguments are forwarded by reference (\<open>Args&&\<close>), so a call returns the arguments as
  the callee left them.
\<close>

subsection \<open>Outcomes and faults\<close>

text \<open>A call either returns a value or leaves by an exception.\<close>

datatype ('e, 'r) outcome = Raised 'e | Returned 'r

text \<open>
  What ends the program instead of returning to the caller: the failed \<open>assert\<close> of
  \<open>Function::operator()\<close>, a call through a null pointer, and the use of an adapter
  that is not (or no longer) allocated.
\<close>

datatype fault = AssertionFailed | NullDereference | DanglingPointer

subsection \<open>Payloads\<close>

text \<open>
  A function pointer \<open>Ret (*)(Args...)\<close> is the function it points to: from the arguments
  and the world to the outcome, the arguments afterwards and the world afterwards.
\<close>

type_synonym ('a, 'w, 'e, 'r) fn_ptr =
  "'a \<Rightarrow> 'w \<Rightarrow> ('e, 'r) outcome \<times> 'a \<times> 'w"

text \<open>
  The call operator of a functor class also reads and writes the functor object
  (the adapters call it on a non-const member).
\<close>

type_synonym ('s, 'a, 'w, 'e, 'r) call_operator =
  "'s \<Rightarrow> 'a \<Rightarrow> 'w \<Rightarrow> ('e, 'r) outcome \<times> 's \<times> 'a \<times> 'w"

text \<open>
  A pointer to member function \<open>Member Class::*\<close> is what \<open>std::mem_fn\<close> of it does on a
  first operand (an instance of the class, or a pointer to one) and the remaining
  arguments: the outcome, the first operand afterwards (an instance as the member
  function left it; a pointer is returned as it was, its pointee lives in the world),
  the remaining arguments afterwards and the world afterwards.
\<close>

type_synonym ('x, 'p, 'w, 'e, 'r) member_ptr =
  "'x \<Rightarrow> 'p \<Rightarrow> 'w \<Rightarrow> ('e, 'r) outcome \<times> 'x \<times> 'p \<times> 'w"

text \<open>
  The member-function adapter passes the first argument on by value. What initialising
  a by-value parameter of the first argument's (decayed) type from that argument does is
  code of that type: the copy constructor of the receiver's class for an lvalue, its move
  constructor for an rvalue, a copy of the pointer for a pointer. It gives the new object
  or throws, and leaves the argument it read (a move changes it) and the world (a
  constructor may write to it). A receiver of a derived class passed as a reference to
  its base is copied to an object of the base, so the new object need not equal the
  argument.
\<close>

type_synonym ('x, 'w, 'e) by_value =
  "'x \<Rightarrow> 'w \<Rightarrow> ('e, 'x) outcome \<times> 'x \<times> 'w"

text \<open>
  The three shapes of \<open>Callable\<close> that select the three specialisations of
  \<open>func_impl\<close>. A functor carries its object and the call operator of its class. A
  pointer to member function comes with the by-value initialisation that the adapter's
  \<open>call<ClassType, Params...>\<close> is instantiated with for \<open>ClassType obj\<close>.
  Payloads are values: passing one by value, \<open>std::move\<close> of it and the defaulted copy
  constructors of the adapters all give an equal payload.
\<close>

datatype ('x, 'p, 's, 'w, 'e, 'r) callable_t =
    FnPtr "('x \<times> 'p, 'w, 'e, 'r) fn_ptr"
  | Functor 's "('s, 'x \<times> 'p, 'w, 'e, 'r) call_operator"
  | MemPtr "('x, 'w, 'e) by_value" "('x, 'p, 'w, 'e, 'r) member_ptr"

subsection \<open>The adapters \<open>detail::func_impl\<close>\<close>

text \<open>
  Every specialisation has the one member \<open>callable_\<close> (selector \<open>callable\<close>: a name
  cannot end in an underscore here), set by the constructor \<open>func_impl(callable)\<close>.
\<close>

datatype ('x, 'p, 's, 'w, 'e, 'r) func_impl =
  func_impl (callable: "('x, 'p, 's, 'w, 'e, 'r) callable_t")

text \<open>
  \<open>Ret call(ClassType obj, Params&&... args)\<close> of the member-function specialisation,
  called as \<open>call(std::forward<Args>(args)...)\<close> with the first argument \<open>x\<close>. The
  parameter \<open>obj\<close> is passed by value: it is first initialised from \<open>x\<close>, and an
  exception of that initialisation leaves the call before the member function runs.
  Then \<open>std::mem_fn(callable_)(obj, std::forward<Params>(args)...)\<close> runs on \<open>obj\<close>;
  what it does to \<open>obj\<close> ends with the call, while the remaining arguments are
  references. The result holds the first argument as the initialisation left it.
\<close>

definition call ::
  "('x, 'w, 'e) by_value \<Rightarrow> ('x, 'p, 'w, 'e, 'r) member_ptr \<Rightarrow> 'x \<Rightarrow> 'p \<Rightarrow> 'w \<Rightarrow>
     ('e, 'r) outcome \<times> 'x \<times> 'p \<times> 'w" where
  "call init m x args w =
     (case init x w of
        (Raised e, x1, w1) \<Rightarrow> (Raised e, x1, args, w1)
      | (Returned obj, x1, w1) \<Rightarrow>
          (case m obj args w1 of (out, obj', args', w') \<Rightarrow> (out, x1, args', w')))"

text \<open>
  The virtual \<open>operator()(Args&&... args)\<close>, one equation per specialisation. It returns
  the adapter as the call left it (a functor may change its own members).
\<close>

fun func_impl_call ::
  "('x, 'p, 's, 'w, 'e, 'r) func_impl \<Rightarrow> 'x \<times> 'p \<Rightarrow> 'w \<Rightarrow>
     ('e, 'r) outcome \<times> ('x, 'p, 's, 'w, 'e, 'r) func_impl \<times> ('x \<times> 'p) \<times> 'w" where
  "func_impl_call (func_impl (FnPtr f)) args w =
     (case f args w of (out, args', w') \<Rightarrow> (out, func_impl (FnPtr f), args', w'))"
| "func_impl_call (func_impl (Functor s op)) args w =
     (case op s args w of (out, s', args', w') \<Rightarrow> (out, func_impl (Functor s' op), args', w'))"
| "func_impl_call (func_impl (MemPtr init m)) (x, p) w =
     (case call init m x p w of
        (out, x', p', w') \<Rightarrow> (out, func_impl (MemPtr init m), (x', p'), w'))"

subsection \<open>The heap\<close>

text \<open>
  Adapters live on the heap. Cell \<open>a\<close> of the list is the object at address \<open>a\<close>,
  \<open>None\<close> once it is deleted; \<open>new\<close> takes the next cell, so that its result is
  an address no object has.
\<close>

type_synonym addr = nat

type_synonym 'i heap = "'i option list"

definition heap_at :: "'i heap \<Rightarrow> addr \<Rightarrow> 'i option" where
  "heap_at H a = (if a < length H then H ! a else None)"

definition heap_new :: "'i heap \<Rightarrow> 'i \<Rightarrow> addr \<times> 'i heap" where
  "heap_new H obj = (length H, H @ [Some obj])"

definition heap_delete :: "'i heap \<Rightarrow> addr \<Rightarrow> fault + 'i heap" where
  "heap_delete H a =
     (case heap_at H a of None \<Rightarrow> Inl DanglingPointer | Some obj \<Rightarrow> Inr (H[a := None]))"

text \<open>
  The virtual \<open>clone()\<close>, the same in every specialisation:
  \<open>return (new func_impl(*this));\<close>. The copy constructor is the defaulted one, a copy
  of \<open>callable_\<close>; copying a payload gives an equal payload.
\<close>

definition clone ::
  "('x, 'p, 's, 'w, 'e, 'r) func_impl \<Rightarrow> ('x, 'p, 's, 'w, 'e, 'r) func_impl heap \<Rightarrow>
     addr \<times> ('x, 'p, 's, 'w, 'e, 'r) func_impl heap" where
  "clone this H = heap_new H (func_impl (callable this))"

subsection \<open>\<open>std::unique_ptr\<close>\<close>

text \<open>
  An owning pointer is an address or null. \<open>reset(p)\<close> stores \<open>p\<close> and deletes what
  was owned before; \<open>release()\<close> hands the address out and leaves null; the
  destructor deletes what is owned.
\<close>

definition unique_ptr_reset ::
  "addr option \<Rightarrow> addr option \<Rightarrow> 'i heap \<Rightarrow> fault + (addr option \<times> 'i heap)" where
  "unique_ptr_reset ptr p H =
     (case ptr of
        None \<Rightarrow> Inr (p, H)
      | Some old \<Rightarrow> (case heap_delete H old of Inl e \<Rightarrow> Inl e | Inr H' \<Rightarrow> Inr (p, H')))"

definition unique_ptr_release :: "addr option \<Rightarrow> addr option \<times> addr option" where
  "unique_ptr_release ptr = (ptr, None)"

definition unique_ptr_destroy :: "addr option \<Rightarrow> 'i heap \<Rightarrow> fault + 'i heap" where
  "unique_ptr_destroy ptr H = (case ptr of None \<Rightarrow> Inr H | Some a \<Rightarrow> heap_delete H a)"

subsection \<open>The handle \<open>Function<Ret(Args...)>\<close>\<close>

text \<open>The one member: \<open>std::unique_ptr<implementation> impl_base_ = nullptr\<close>.\<close>

record Function =
  impl_base :: "addr option"

text \<open>\<open>Function() = default\<close>.\<close>

definition Function_default :: Function where
  "Function_default = \<lparr>impl_base = None\<rparr>"

text \<open>
  The copy constructor: \<open>this->impl_base_.reset(other.impl_base_->clone());\<close>.
  The \<open>->\<close> is applied whatever \<open>other\<close> holds.
\<close>

definition Function_copy ::
  "Function \<Rightarrow> ('x, 'p, 's, 'w, 'e, 'r) func_impl heap \<Rightarrow>
     fault + (Function \<times> ('x, 'p, 's, 'w, 'e, 'r) func_impl heap)" where
  "Function_copy other H =
     (case impl_base other of
        None \<Rightarrow> Inl NullDereference
      | Some a \<Rightarrow>
          (case heap_at H a of
             None \<Rightarrow> Inl DanglingPointer
           | Some impl \<Rightarrow>
               (case clone impl H of
                  (b, H1) \<Rightarrow>
                    (case unique_ptr_reset (impl_base Function_default) (Some b) H1 of
                       Inl e \<Rightarrow> Inl e
                     | Inr (ptr, H2) \<Rightarrow> Inr (\<lparr>impl_base = ptr\<rparr>, H2)))))"

text \<open>
  The body of the copy assignment \<open>operator=(Function other)\<close>:
  \<open>this->impl_base_.reset(other.impl_base_.release()); return *this;\<close>, after which the
  parameter \<open>other\<close> is destroyed.
\<close>

definition Function_assign ::
  "Function \<Rightarrow> Function \<Rightarrow> 'i heap \<Rightarrow> fault + (Function \<times> 'i heap)" where
  "Function_assign this other H =
     (case unique_ptr_release (impl_base other) of
        (p, other_ptr) \<Rightarrow>
          (case unique_ptr_reset (impl_base this) p H of
             Inl e \<Rightarrow> Inl e
           | Inr (ptr, H1) \<Rightarrow>
               (case unique_ptr_destroy other_ptr H1 of
                  Inl e \<Rightarrow> Inl e
                | Inr H2 \<Rightarrow> Inr (\<lparr>impl_base = ptr\<rparr>, H2))))"

text \<open>
  \<open>h1 = h2\<close> for a handle \<open>h2\<close>: the parameter \<open>other\<close> is passed by value, that is
  copy-constructed from \<open>h2\<close>, and then the body runs.
\<close>

definition Function_copy_assign ::
  "Function \<Rightarrow> Function \<Rightarrow> ('x, 'p, 's, 'w, 'e, 'r) func_impl heap \<Rightarrow>
     fault + (Function \<times> ('x, 'p, 's, 'w, 'e, 'r) func_impl heap)" where
  "Function_copy_assign this src H =
     (case Function_copy src H of
        Inl e \<Rightarrow> Inl e
      | Inr (other, H1) \<Rightarrow> Function_assign this other H1)"

text \<open>
  \<open>operator=(Callable cb)\<close>:
  \<open>this->impl_base_ = std::make_unique<detail::func_impl<call_signature, Callable>>(std::move(cb));\<close>
  The new adapter is allocated first; the move assignment of the owning pointer then
  is \<open>reset(release())\<close> from the temporary, which is destroyed at the end of the
  statement.
\<close>

definition Function_assign_callable ::
  "Function \<Rightarrow> ('x, 'p, 's, 'w, 'e, 'r) callable_t \<Rightarrow> ('x, 'p, 's, 'w, 'e, 'r) func_impl heap \<Rightarrow>
     fault + (Function \<times> ('x, 'p, 's, 'w, 'e, 'r) func_impl heap)" where
  "Function_assign_callable this cb H =
     (case heap_new H (func_impl cb) of
        (b, H1) \<Rightarrow>
          (case unique_ptr_release (Some b) of
             (p, tmp) \<Rightarrow>
               (case unique_ptr_reset (impl_base this) p H1 of
                  Inl e \<Rightarrow> Inl e
                | Inr (ptr, H2) \<Rightarrow>
                    (case unique_ptr_destroy tmp H2 of
                       Inl e \<Rightarrow> Inl e
                     | Inr H3 \<Rightarrow> Inr (\<lparr>impl_base = ptr\<rparr>, H3)))))"

text \<open>
  The constructor \<open>Function(Callable f)\<close>:
  \<open>impl_base_(std::make_unique<detail::func_impl<call_signature, Callable>>(std::move(f)))\<close>.
\<close>

definition Function_ctor ::
  "('x, 'p, 's, 'w, 'e, 'r) callable_t \<Rightarrow> ('x, 'p, 's, 'w, 'e, 'r) func_impl heap \<Rightarrow>
     Function \<times> ('x, 'p, 's, 'w, 'e, 'r) func_impl heap" where
  "Function_ctor f H = (case heap_new H (func_impl f) of (b, H1) \<Rightarrow> (\<lparr>impl_base = Some b\<rparr>, H1))"

text \<open>
  The call operator: \<open>assert (impl_base_.get()); return (*impl_base_)(std::forward<Args>(args)...);\<close>.
  The \<open>assert\<close> is taken as compiled in (no \<open>NDEBUG\<close>). The adapter is called where it
  lies, so what the call does to it stays in its cell.
\<close>

definition Function_call ::
  "Function \<Rightarrow> 'x \<times> 'p \<Rightarrow> ('x, 'p, 's, 'w, 'e, 'r) func_impl heap \<Rightarrow> 'w \<Rightarrow>
     fault + (('e, 'r) outcome \<times> ('x \<times> 'p) \<times> ('x, 'p, 's, 'w, 'e, 'r) func_impl heap \<times> 'w)" where
  "Function_call this args H w =
     (case impl_base this of
        None \<Rightarrow> Inl AssertionFailed
      | Some a \<Rightarrow>
          (case heap_at H a of
             None \<Rightarrow> Inl DanglingPointer
           | Some impl \<Rightarrow>
               (case func_impl_call impl args w of
                  (out, impl', args', w') \<Rightarrow> Inr (out, args', H[a := Some impl'], w'))))"

text \<open>\<open>explicit operator bool() const noexcept\<close>: \<open>return impl_base_ != nullptr;\<close>.\<close>

definition Function_bool :: "Function \<Rightarrow> bool" where
  "Function_bool this = (impl_base this \<noteq> None)"

subsection \<open>What a caller sees\<close>

text \<open>
  The result of a call without the heap: the fault, or the outcome with the arguments
  and the world as the call left them.
\<close>

definition call_result ::
  "fault + (('e, 'r) outcome \<times> 'a \<times> 'h \<times> 'w) \<Rightarrow> fault + (('e, 'r) outcome \<times> 'a \<times> 'w)" where
  "call_result res =
     (case res of Inl e \<Rightarrow> Inl e | Inr (out, args', H', w') \<Rightarrow> Inr (out, args', w'))"

text \<open>
  A handle called again and again, each time with its arguments and the world of that
  moment: the results in order, and the heap at the end. A fault ends the program.
\<close>

fun Function_calls ::
  "Function \<Rightarrow> (('x \<times> 'p) \<times> 'w) list \<Rightarrow> ('x, 'p, 's, 'w, 'e, 'r) func_impl heap \<Rightarrow>
     (fault + (('e, 'r) outcome \<times> ('x \<times> 'p) \<times> 'w)) list \<times> ('x, 'p, 's, 'w, 'e, 'r) func_impl heap" where
  "Function_calls this [] H = ([], H)"
| "Function_calls this ((args, w) # rest) H =
     (case Function_call this args H w of
        Inl e \<Rightarrow> ([Inl e], H)
      | Inr (out, args', H', w') \<Rightarrow>
          (case Function_calls this rest H' of (rs, H'') \<Rightarrow> (Inr (out, args', w') # rs, H'')))"

text \<open>The same for an adapter on its own, in no heap and behind no handle.\<close>

fun func_impl_calls ::
  "('x, 'p, 's, 'w, 'e, 'r) func_impl \<Rightarrow> (('x \<times> 'p) \<times> 'w) list \<Rightarrow>
     (('e, 'r) outcome \<times> ('x \<times> 'p) \<times> 'w) list" where
  "func_impl_calls impl [] = []"
| "func_impl_calls impl ((args, w) # rest) =
     (case func_impl_call impl args w of
        (out, impl', args', w') \<Rightarrow> (out, args', w') # func_impl_calls impl' rest)"

text \<open>
  The reference the wrapper is compared with: the payload called directly, with no
  wrapper. A function pointer \<open>f\<close> is called as \<open>f(args...)\<close>, a functor \<open>s\<close> as
  \<open>s(args...)\<close>, and a pointer to member function \<open>m\<close> on the receiver \<open>x\<close> itself, as
  \<open>(x.*m)(p...)\<close> or \<open>(x->*m)(p...)\<close>: nothing is passed by value there.
\<close>

fun direct_call ::
  "('x, 'p, 's, 'w, 'e, 'r) callable_t \<Rightarrow> 'x \<times> 'p \<Rightarrow> 'w \<Rightarrow>
     ('e, 'r) outcome \<times> ('x, 'p, 's, 'w, 'e, 'r) callable_t \<times> ('x \<times> 'p) \<times> 'w" where
  "direct_call (FnPtr f) args w =
     (case f args w of (out, args', w') \<Rightarrow> (out, FnPtr f, args', w'))"
| "direct_call (Functor s op) args w =
     (case op s args w of (out, s', args', w') \<Rightarrow> (out, Functor s' op, args', w'))"
| "direct_call (MemPtr init m) (x, p) w =
     (case m x p w of (out, x', p', w') \<Rightarrow> (out, MemPtr init m, (x', p'), w'))"

text \<open>
  A handle owns what it points to: it is empty, or its adapter is allocated.
\<close>

definition Function_valid :: "Function \<Rightarrow> 'i heap \<Rightarrow> bool" where
  "Function_valid this H = (case impl_base this of None \<Rightarrow> True | Some a \<Rightarrow> heap_at H a \<noteq> None)"

subsection \<open>The test code\<close>

text \<open>
  \<open>int foo_ex1() { return 42; }\<close>, \<open>int foo_ex2() { return 43; }\<close> and
  \<open>void foo_void(int& val) { val++; }\<close> (the test increments 41; signed overflow is
  undefined in C++ and not modelled).
\<close>

definition foo_ex1 :: "(unit \<times> unit, 'w, 'e, int) fn_ptr" where
  "foo_ex1 args w = (Returned 42, args, w)"

definition foo_ex2 :: "(unit \<times> unit, 'w, 'e, int) fn_ptr" where
  "foo_ex2 args w = (Returned 43, args, w)"

definition foo_void :: "(int \<times> unit, 'w, 'e, unit) fn_ptr" where
  "foo_void args w = (case args of (val, rest) \<Rightarrow> (Returned (), (val + 1, rest), w))"

text \<open>
  \<open>struct LargeFunctor\<close>: the member \<open>std::string repr_ = "LargeFunctorString"\<close> and
  \<open>std::string operator()() const { return repr_; }\<close>.
\<close>

record LargeFunctor =
  repr :: string

definition LargeFunctor_default :: LargeFunctor where
  "LargeFunctor_default = \<lparr>repr = ''LargeFunctorString''\<rparr>"

definition LargeFunctor_call :: "(LargeFunctor, unit \<times> unit, 'w, 'e, string) call_operator" where
  "LargeFunctor_call this args w = (Returned (repr this), this, args, w)"

text \<open>
  The fifth block of \<open>main\<close>:
  \<open>LargeFunctor lf; Function<std::string()> f(lf); auto s1 = f(); lf.repr_ = "Silmarillion"; s1 = f();\<close>
  It returns \<open>s1\<close> and \<open>lf\<close> as they are where the block asserts \<open>s1 != lf.repr_\<close>.
\<close>

definition main_LargeFunctor ::
  "(unit, unit, LargeFunctor, unit, unit, string) func_impl heap \<Rightarrow>
     fault + ((unit, string) outcome \<times> LargeFunctor)" where
  "main_LargeFunctor H =
     (let lf = LargeFunctor_default in
      case Function_ctor (Functor lf LargeFunctor_call) H of
        (f, H1) \<Rightarrow>
          (case Function_call f ((), ()) H1 () of
             Inl e \<Rightarrow> Inl e
           | Inr (s1, args1, H2, w1) \<Rightarrow>
               (let lf = lf\<lparr>repr := ''Silmarillion''\<rparr> in
                case Function_call f ((), ()) H2 () of
                  Inl e \<Rightarrow> Inl e
                | Inr (s1, args2, H3, w2) \<Rightarrow> Inr (s1, lf))))"

text \<open>
  Passing a pointer by value, or an object of a class with the implicit copy constructor
  and members that are plain values: the parameter equals the argument, and nothing
  else happens.
\<close>

definition trivial_copy :: "('x, 'w, 'e) by_value" where
  "trivial_copy x w = (Returned x, x, w)"

text \<open>
  \<open>void Luthien::Beren() const { std::cout << "Awesome" << std::endl; }\<close>, called on a
  \<open>Luthien*\<close>. The class has no members, so the call reads nothing of its receiver; the
  world is the lines written to \<open>std::cout\<close>.
\<close>

definition Luthien_Beren :: "(addr, unit, string list, 'e, unit) member_ptr" where
  "Luthien_Beren this args cout = (Returned (), this, args, cout @ [''Awesome''])"

text \<open>
  A class the test code does not have, with a member function that changes its object:
  \<open>struct Counter { int n = 0; void incr() { ++n; } };\<close>. \<open>Counter_incr\<close> is
  \<open>&Counter::incr\<close> on a receiver that is an instance (\<open>Counter&\<close>).
\<close>

record Counter =
  n :: int

definition Counter_incr :: "(Counter, unit, 'w, 'e, unit) member_ptr" where
  "Counter_incr this args w = (Returned (), this\<lparr>n := n this + 1\<rparr>, args, w)"

text \<open>
  Another class the test code does not have, with a copy constructor that throws and a
  member function that does not:
  \<open>struct Fragile { Fragile() = default; Fragile(const Fragile&) { throw std::string("copy"); } void touch() {} };\<close>
  \<open>Fragile_copy\<close> is passing a \<open>Fragile&\<close> by value, \<open>Fragile_touch\<close> is \<open>&Fragile::touch\<close>
  on a receiver that is an instance.
\<close>

datatype Fragile = Fragile

definition Fragile_copy :: "(Fragile, 'w, string) by_value" where
  "Fragile_copy other w = (Raised ''copy'', other, w)"

definition Fragile_touch :: "(Fragile, unit, 'w, string, unit) member_ptr" where
  "Fragile_touch this args w = (Returned (), this, args, w)"

section \<open>Properties\<close>

subsection \<open>The heap\<close>

lemma heap_at_new: "heap_at (H @ [Some obj]) a = (if a = length H then Some obj else heap_at H a)"
  by (simp add: heap_at_def nth_append)

lemma heap_at_update: "heap_at (H[a := v]) b = (if b = a \<and> a < length H then v else heap_at H b)"
  by (simp add: heap_at_def)

lemma heap_at_Some_length: "heap_at H a = Some obj \<Longrightarrow> a < length H"
  by (simp add: heap_at_def split: if_splits)

lemma heap_at_replaced:
  assumes "heap_at H a = Some old"
  shows "heap_at ((H @ [Some new])[a := None]) a = None"
    and "heap_at ((H @ [Some new])[a := None]) (length H) = Some new"
    and "b \<noteq> a \<Longrightarrow> b \<noteq> length H \<Longrightarrow> heap_at ((H @ [Some new])[a := None]) b = heap_at H b"
  using heap_at_Some_length [OF assms]
  by (simp_all add: heap_at_update heap_at_new)

lemma list_update_same_cell:
  assumes "heap_at H a = Some impl"
  shows "H[a := Some impl] = H"
  using assms by (simp add: heap_at_def list_update_same_conv split: if_splits)


subsection \<open>The operations where the handles own their adapters\<close>

text \<open>
  With the owned cells known, every operation is one equation. \<open>new\<close> gives the address
  \<open>length H\<close>.
\<close>

lemma Function_ctor_eq:
  "Function_ctor f H = (\<lparr>impl_base = Some (length H)\<rparr>, H @ [Some (func_impl f)])"
  by (simp add: Function_ctor_def heap_new_def)

lemma Function_copy_Some:
  assumes "impl_base other = Some a" and "heap_at H a = Some impl"
  shows "Function_copy other H = Inr (\<lparr>impl_base = Some (length H)\<rparr>, H @ [Some impl])"
  using assms
  by (simp add: Function_copy_def clone_def heap_new_def unique_ptr_reset_def Function_default_def)

lemma Function_assign_callable_Some:
  assumes "impl_base this = Some a" and "heap_at H a = Some old"
  shows "Function_assign_callable this cb H =
           Inr (\<lparr>impl_base = Some (length H)\<rparr>, (H @ [Some (func_impl cb)])[a := None])"
  using assms
  by (simp add: Function_assign_callable_def heap_new_def unique_ptr_release_def
      unique_ptr_reset_def unique_ptr_destroy_def heap_delete_def heap_at_new
      heap_at_Some_length)

lemma Function_assign_callable_None:
  assumes "impl_base this = None"
  shows "Function_assign_callable this cb H =
           Inr (\<lparr>impl_base = Some (length H)\<rparr>, H @ [Some (func_impl cb)])"
  using assms
  by (simp add: Function_assign_callable_def heap_new_def unique_ptr_release_def
      unique_ptr_reset_def unique_ptr_destroy_def)

lemma Function_copy_assign_Some:
  assumes "impl_base this = Some a" and "heap_at H a = Some old"
    and "impl_base src = Some a'" and "heap_at H a' = Some new"
  shows "Function_copy_assign this src H =
           Inr (\<lparr>impl_base = Some (length H)\<rparr>, (H @ [Some new])[a := None])"
  using assms
  by (simp add: Function_copy_assign_def Function_copy_Some Function_assign_def
      unique_ptr_release_def unique_ptr_reset_def unique_ptr_destroy_def heap_delete_def
      heap_at_new heap_at_Some_length)

lemma Function_copy_assign_None:
  assumes "impl_base this = None"
    and "impl_base src = Some a'" and "heap_at H a' = Some new"
  shows "Function_copy_assign this src H =
           Inr (\<lparr>impl_base = Some (length H)\<rparr>, H @ [Some new])"
  using assms
  by (simp add: Function_copy_assign_def Function_copy_Some Function_assign_def
      unique_ptr_release_def unique_ptr_reset_def unique_ptr_destroy_def)

lemma Function_call_Some:
  assumes "impl_base this = Some a" and "heap_at H a = Some impl"
  shows "Function_call this args H w =
     (case func_impl_call impl args w of
        (out, impl', args', w') \<Rightarrow> Inr (out, args', H[a := Some impl'], w'))"
  using assms by (simp add: Function_call_def)

lemma call_result_Function_call:
  assumes "impl_base this = Some a" and "heap_at H a = Some impl"
  shows "call_result (Function_call this args H w) =
     (case func_impl_call impl args w of (out, impl', args', w') \<Rightarrow> Inr (out, args', w'))"
  using assms by (simp add: Function_call_def call_result_def split: prod.splits)

lemma Function_call_FnPtr:
  assumes "impl_base this = Some a" and "heap_at H a = Some (func_impl (FnPtr f))"
  shows "Function_call this args H w =
     (case f args w of (out, args', w') \<Rightarrow> Inr (out, args', H, w'))"
  using assms list_update_same_cell [OF assms(2)]
  by (simp add: Function_call_def case_prod_beta)

lemma Function_call_MemPtr:
  assumes "impl_base this = Some a" and "heap_at H a = Some (func_impl (MemPtr init m))"
  shows "Function_call this (x, p) H w =
     (case call init m x p w of (out, x', p', w') \<Rightarrow> Inr (out, (x', p'), H, w'))"
  using assms list_update_same_cell [OF assms(2)]
  by (simp add: Function_call_def case_prod_beta)

lemma call_plain_copy:
  assumes "init x w = (Returned x, x, w)"
  shows "call init m x p w = (case m x p w of (out, x', p', w') \<Rightarrow> (out, x, p', w'))"
  using assms by (simp add: call_def case_prod_beta)

text \<open>
  The outcome of an adapter is the outcome of its payload called directly, for a
  function pointer, for a functor, and for a pointer to member function where passing
  the receiver by value gives the receiver and does nothing else.
\<close>

lemma outcome_func_impl_call:
  assumes "\<And>init m. c = MemPtr init m \<Longrightarrow> init (fst args) w = (Returned (fst args), fst args, w)"
  shows "fst (func_impl_call (func_impl c) args w) = fst (direct_call c args w)"
proof (cases c)
  case (FnPtr f)
  then show ?thesis by (simp add: case_prod_beta)
next
  case (Functor s op)
  then show ?thesis by (simp add: case_prod_beta)
next
  case (MemPtr init m)
  obtain x p where args: "args = (x, p)" by (cases args)
  have "init x w = (Returned x, x, w)" using assms [OF MemPtr] args by simp
  then show ?thesis
    by (simp add: MemPtr args call_plain_copy case_prod_beta)
qed

lemma payload_outcome_through_handle:
  assumes "impl_base this = Some a" and "heap_at H a = Some (func_impl c)"
    and "\<And>init m. c = MemPtr init m \<Longrightarrow> init (fst args) w = (Returned (fst args), fst args, w)"
  shows "\<exists>args' H' w'. Function_call this args H w
            = Inr (fst (direct_call c args w), args', H', w')"
proof -
  obtain out impl' args' w' where step: "func_impl_call (func_impl c) args w = (out, impl', args', w')"
    by (cases "func_impl_call (func_impl c) args w")
  have out: "out = fst (direct_call c args w)"
    using outcome_func_impl_call [of c args w] assms(3) step by simp
  have "Function_call this args H w = Inr (out, args', H[a := Some impl'], w')"
    using assms(1,2) step by (simp add: Function_call_Some)
  then show ?thesis using out by auto
qed


text \<open>A call writes to the cell of the called handle and to no other.\<close>

lemma Function_call_heap_other:
  assumes "Function_call this args H w = Inr (out, args', H', w')" and "impl_base this \<noteq> Some b"
  shows "heap_at H' b = heap_at H b"
  using assms
  by (auto simp: Function_call_def heap_at_update split: option.splits prod.splits)

lemma Function_calls_heap_other:
  assumes "impl_base this \<noteq> Some b"
  shows "heap_at (snd (Function_calls this calls H)) b = heap_at H b"
  using assms
proof (induction calls arbitrary: H)
  case Nil
  then show ?case by simp
next
  case (Cons c calls)
  obtain args w where c: "c = (args, w)" by (cases c)
  show ?case
  proof (cases "Function_call this args H w")
    case (Inl e)
    then show ?thesis by (simp add: c)
  next
    case (Inr r)
    obtain out args' H' w' where r: "r = (out, args', H', w')" by (cases r)
    have "heap_at H' b = heap_at H b"
      using Inr r Cons.prems by (auto intro: Function_call_heap_other)
    then show ?thesis
      using Cons.IH [OF Cons.prems, of H'] Inr r by (simp add: c case_prod_beta)
  qed
qed


text \<open>
  Behind a handle, an adapter does what it does on its own: the results of any run of
  calls are those of the adapter.
\<close>

lemma Function_calls_eq:
  assumes "heap_at H a = Some impl"
  shows "fst (Function_calls \<lparr>impl_base = Some a\<rparr> calls H) = map Inr (func_impl_calls impl calls)"
  using assms
proof (induction calls arbitrary: H impl)
  case Nil
  then show ?case by simp
next
  case (Cons c calls)
  obtain args w where c: "c = (args, w)" by (cases c)
  obtain out impl' args' w' where step: "func_impl_call impl args w = (out, impl', args', w')"
    by (cases "func_impl_call impl args w")
  have len: "a < length H" using Cons.prems by (rule heap_at_Some_length)
  have next_cell: "heap_at (H[a := Some impl']) a = Some impl'"
    using len by (simp add: heap_at_update)
  show ?case
    using Cons.IH [OF next_cell] Cons.prems
    by (simp add: c step Function_call_def case_prod_beta)
qed

text \<open>
  The member-function adapter calls the member function on its own copy of the first
  argument. Where making that copy gives the argument and does nothing else, and
  \<open>std::mem_fn\<close> leaves the first operand as it was (a pointer to the receiver, or a
  member function that does not change its object), the caller sees what a direct call
  on the receiver gives.
\<close>

lemma Function_call_MemPtr_operand_unchanged:
  assumes "impl_base this = Some a" and "heap_at H a = Some (func_impl (MemPtr init m))"
    and "init x w = (Returned x, x, w)" and "fst (snd (m x p w)) = x"
  shows "call_result (Function_call this (x, p) H w) =
     (case direct_call (MemPtr init m) (x, p) w of (out, c, args', w') \<Rightarrow> Inr (out, args', w'))"
  using assms(4)
  by (cases "m x p w")
    (simp add: Function_call_MemPtr [OF assms(1,2)]
      call_plain_copy [of init x w, OF assms(3)] call_result_def)

text \<open>
  The test \<open>Function<void(Luthien*)> f1(&Luthien::Beren); Luthien lu; f1(&lu);\<close>, with
  \<open>lu\<close> at the address \<open>lu\<close>: one line is written, as by \<open>(&lu)->Beren()\<close>.
\<close>

lemma Luthien_Beren_through_handle:
  "(case Function_ctor (MemPtr trivial_copy Luthien_Beren) [] of
      (f1, H) \<Rightarrow> call_result (Function_call f1 (lu, ()) H cout))
     = Inr (Returned (), (lu, ()), cout @ [''Awesome''])
   \<and> direct_call (MemPtr trivial_copy Luthien_Beren) (lu, ()) cout
     = (Returned (), MemPtr trivial_copy Luthien_Beren, (lu, ()), cout @ [''Awesome''])"
  by (simp add: Function_ctor_eq Function_call_def heap_at_def call_result_def call_def
      trivial_copy_def Luthien_Beren_def)

section \<open>The claims\<close>

text \<open>
  Claim C1: copy-constructing from an empty handle, and copy-assigning an empty handle
  into another handle, each give an empty handle.

  The code does not: the copy constructor calls \<open>other.impl_base_->clone()\<close> without
  looking at \<open>other.impl_base_\<close>, and the copy assignment builds its by-value parameter
  with that constructor. From an empty handle both end in a call through a null pointer,
  whatever the heap and the assigned-to handle are.
\<close>

theorem C1_copy_of_empty_handle:
  "Function_copy Function_default H = Inl NullDereference
   \<and> Function_copy_assign this Function_default H = Inl NullDereference"
  by (simp add: Function_copy_def Function_copy_assign_def Function_default_def)

text \<open>
  Claim C2: a copy \<open>h2\<close> of a handle \<open>h1\<close> that wraps a functor is an independently owned
  deep copy. The copy constructor gives \<open>h2\<close> a new adapter at another address, holding the
  same functor; whatever calls are made through \<open>h1\<close>, a call through \<open>h2\<close> gives what the
  call operator gives on the functor as it was copied, and the same with the two handles
  exchanged. A handle constructed from a functor holds the value the functor had then:
  its results are those of that value, so no later change of the original enters.
\<close>

theorem C2_copy_is_deep:
  assumes "impl_base h1 = Some a1" and "heap_at H a1 = Some (func_impl (Functor s op))"
  shows "(\<exists>a2 H1. Function_copy h1 H = Inr (\<lparr>impl_base = Some a2\<rparr>, H1) \<and> a2 \<noteq> a1
            \<and> heap_at H1 a1 = Some (func_impl (Functor s op))
            \<and> heap_at H1 a2 = Some (func_impl (Functor s op))
            \<and> (\<forall>calls args w.
                  call_result (Function_call \<lparr>impl_base = Some a2\<rparr> args
                     (snd (Function_calls h1 calls H1)) w)
                  = (case op s args w of (out, s', args', w') \<Rightarrow> Inr (out, args', w')))
            \<and> (\<forall>calls args w.
                  call_result (Function_call h1 args
                     (snd (Function_calls \<lparr>impl_base = Some a2\<rparr> calls H1)) w)
                  = (case op s args w of (out, s', args', w') \<Rightarrow> Inr (out, args', w'))))
       \<and> (\<forall>H0 args w.
             (case Function_ctor (Functor s op) H0 of
                (f, H1) \<Rightarrow> call_result (Function_call f args H1 w))
             = (case op s args w of (out, s', args', w') \<Rightarrow> Inr (out, args', w')))"
proof (intro conjI)
  let ?impl = "func_impl (Functor s op)"
  let ?a2 = "length H"
  let ?H1 = "H @ [Some ?impl]"
  let ?h2 = "\<lparr>impl_base = Some ?a2\<rparr>"
  have len: "a1 < length H" using assms(2) by (rule heap_at_Some_length)
  have copy: "Function_copy h1 H = Inr (?h2, ?H1)"
    using assms by (rule Function_copy_Some)
  have ne: "?a2 \<noteq> a1" using len by simp
  have c1: "heap_at ?H1 a1 = Some ?impl" using assms(2) len by (simp add: heap_at_new)
  have c2: "heap_at ?H1 ?a2 = Some ?impl" by (simp add: heap_at_new)
  have r2: "call_result (Function_call ?h2 args (snd (Function_calls h1 calls ?H1)) w)
      = (case op s args w of (out, s', args', w') \<Rightarrow> Inr (out, args', w'))" for calls args w
  proof -
    have "impl_base h1 \<noteq> Some ?a2" using assms(1) ne by simp
    then have "heap_at (snd (Function_calls h1 calls ?H1)) ?a2 = Some ?impl"
      using c2 by (simp add: Function_calls_heap_other)
    then show ?thesis
      by (simp add: call_result_Function_call case_prod_beta)
  qed
  have r1: "call_result (Function_call h1 args (snd (Function_calls ?h2 calls ?H1)) w)
      = (case op s args w of (out, s', args', w') \<Rightarrow> Inr (out, args', w'))" for calls args w
  proof -
    have "impl_base ?h2 \<noteq> Some a1" using ne by simp
    then have "heap_at (snd (Function_calls ?h2 calls ?H1)) a1 = Some ?impl"
      using c1 by (simp add: Function_calls_heap_other)
    then show ?thesis
      using assms(1) by (simp add: call_result_Function_call case_prod_beta)
  qed
  show "\<exists>a2 H1. Function_copy h1 H = Inr (\<lparr>impl_base = Some a2\<rparr>, H1) \<and> a2 \<noteq> a1
            \<and> heap_at H1 a1 = Some (func_impl (Functor s op))
            \<and> heap_at H1 a2 = Some (func_impl (Functor s op))
            \<and> (\<forall>calls args w.
                  call_result (Function_call \<lparr>impl_base = Some a2\<rparr> args
                     (snd (Function_calls h1 calls H1)) w)
                  = (case op s args w of (out, s', args', w') \<Rightarrow> Inr (out, args', w')))
            \<and> (\<forall>calls args w.
                  call_result (Function_call h1 args
                     (snd (Function_calls \<lparr>impl_base = Some a2\<rparr> calls H1)) w)
                  = (case op s args w of (out, s', args', w') \<Rightarrow> Inr (out, args', w')))"
    using copy ne c1 c2 r1 r2 by blast
next
  show "\<forall>H0 args w.
             (case Function_ctor (Functor s op) H0 of
                (f, H1) \<Rightarrow> call_result (Function_call f args H1 w))
             = (case op s args w of (out, s', args', w') \<Rightarrow> Inr (out, args', w'))"
    by (simp add: Function_ctor_eq call_result_Function_call [where a = "length H0" for H0]
        heap_at_new case_prod_beta)
qed

text \<open>
  The test's \<open>LargeFunctor\<close>: the handle and its copy return \<open>"LargeFunctorString"\<close>, and
  the block of \<open>main\<close> ends with that string in \<open>s1\<close> and \<open>"Silmarillion"\<close> in the original.
\<close>

theorem C2_copy_is_deep_witness:
  "(\<exists>a2 H1.
      Function_copy \<lparr>impl_base = Some 0\<rparr>
        [Some (func_impl (Functor LargeFunctor_default
           (LargeFunctor_call :: (LargeFunctor, unit \<times> unit, unit, unit, string) call_operator))
           :: (unit, unit, LargeFunctor, unit, unit, string) func_impl)]
        = Inr (\<lparr>impl_base = Some a2\<rparr>, H1)
      \<and> a2 \<noteq> 0
      \<and> (\<forall>calls. call_result (Function_call \<lparr>impl_base = Some a2\<rparr> ((), ())
              (snd (Function_calls \<lparr>impl_base = Some 0\<rparr> calls H1)) ())
            = Inr (Returned ''LargeFunctorString'', ((), ()), ())))
   \<and> (case Function_ctor (Functor LargeFunctor_default
           (LargeFunctor_call :: (LargeFunctor, unit \<times> unit, unit, unit, string) call_operator))
           ([] :: (unit, unit, LargeFunctor, unit, unit, string) func_impl heap) of
         (f, H1) \<Rightarrow> call_result (Function_call f ((), ()) H1 ()))
       = Inr (Returned ''LargeFunctorString'', ((), ()), ())
   \<and> main_LargeFunctor [] = Inr (Returned ''LargeFunctorString'', \<lparr>repr = ''Silmarillion''\<rparr>)"
proof -
  let ?op = "LargeFunctor_call :: (LargeFunctor, unit \<times> unit, unit, unit, string) call_operator"
  let ?impl = "func_impl (Functor LargeFunctor_default ?op)
                 :: (unit, unit, LargeFunctor, unit, unit, string) func_impl"
  have h1: "impl_base \<lparr>impl_base = Some 0\<rparr> = Some 0" by simp
  have h2: "heap_at [Some ?impl] 0 = Some ?impl" by (simp add: heap_at_def)
  have run: "(case ?op LargeFunctor_default ((), ()) () of
               (out, s', args', w') \<Rightarrow> Inr (out, args', w'))
             = (Inr (Returned ''LargeFunctorString'', ((), ()), ())
                 :: fault + ((unit, string) outcome \<times> (unit \<times> unit) \<times> unit))"
    by (simp add: LargeFunctor_call_def LargeFunctor_default_def)
  have main: "main_LargeFunctor [] = Inr (Returned ''LargeFunctorString'', \<lparr>repr = ''Silmarillion''\<rparr>)"
    by (simp add: main_LargeFunctor_def Function_ctor_def heap_new_def Function_call_def
        heap_at_def LargeFunctor_call_def LargeFunctor_default_def)
  show ?thesis
    using C2_copy_is_deep [OF h1 h2] run main
    by (simp add: LargeFunctor_default_def) metis
qed

text \<open>
  Claim C3: assigning to a handle that holds a payload, a payload directly or the payload
  of another handle by copy assignment, discards the first payload, and every later call
  reflects the new payload only. Both assignments return a handle on a new adapter that
  holds the new payload (for the copy assignment, a copy of the source's adapter); the
  old adapter is deleted; and any run of calls through the handle gives the results of
  the new adapter on its own.
\<close>

theorem C3_reassignment_replaces:
  assumes "impl_base this = Some a" and "heap_at H a = Some old"
    and "impl_base src = Some a'" and "heap_at H a' = Some new"
  shows "(\<exists>b H'. Function_assign_callable this cb H = Inr (\<lparr>impl_base = Some b\<rparr>, H')
            \<and> heap_at H' a = None \<and> heap_at H' b = Some (func_impl cb)
            \<and> (\<forall>calls. fst (Function_calls \<lparr>impl_base = Some b\<rparr> calls H')
                  = map Inr (func_impl_calls (func_impl cb) calls)))
       \<and> (\<exists>b H'. Function_copy_assign this src H = Inr (\<lparr>impl_base = Some b\<rparr>, H')
            \<and> heap_at H' a = None \<and> heap_at H' b = Some new
            \<and> (\<forall>calls. fst (Function_calls \<lparr>impl_base = Some b\<rparr> calls H')
                  = map Inr (func_impl_calls new calls)))"
proof (intro conjI)
  let ?H1 = "(H @ [Some (func_impl cb)])[a := None]"
  have cell: "heap_at ?H1 (length H) = Some (func_impl cb)"
    using assms(2) by (rule heap_at_replaced(2))
  have "Function_assign_callable this cb H = Inr (\<lparr>impl_base = Some (length H)\<rparr>, ?H1)"
    using assms(1,2) by (rule Function_assign_callable_Some)
  moreover have "heap_at ?H1 a = None"
    using assms(2) by (rule heap_at_replaced(1))
  moreover have "\<forall>calls. fst (Function_calls \<lparr>impl_base = Some (length H)\<rparr> calls ?H1)
      = map Inr (func_impl_calls (func_impl cb) calls)"
    using Function_calls_eq [OF cell] by blast
  ultimately show "\<exists>b H'. Function_assign_callable this cb H = Inr (\<lparr>impl_base = Some b\<rparr>, H')
            \<and> heap_at H' a = None \<and> heap_at H' b = Some (func_impl cb)
            \<and> (\<forall>calls. fst (Function_calls \<lparr>impl_base = Some b\<rparr> calls H')
                  = map Inr (func_impl_calls (func_impl cb) calls))"
    using cell by blast
next
  let ?H1 = "(H @ [Some new])[a := None]"
  have cell: "heap_at ?H1 (length H) = Some new"
    using assms(2) by (rule heap_at_replaced(2))
  have "Function_copy_assign this src H = Inr (\<lparr>impl_base = Some (length H)\<rparr>, ?H1)"
    using assms by (rule Function_copy_assign_Some)
  moreover have "heap_at ?H1 a = None"
    using assms(2) by (rule heap_at_replaced(1))
  moreover have "\<forall>calls. fst (Function_calls \<lparr>impl_base = Some (length H)\<rparr> calls ?H1)
      = map Inr (func_impl_calls new calls)"
    using Function_calls_eq [OF cell] by blast
  ultimately show "\<exists>b H'. Function_copy_assign this src H = Inr (\<lparr>impl_base = Some b\<rparr>, H')
            \<and> heap_at H' a = None \<and> heap_at H' b = Some new
            \<and> (\<forall>calls. fst (Function_calls \<lparr>impl_base = Some b\<rparr> calls H')
                  = map Inr (func_impl_calls new calls))"
    using cell by blast
qed

text \<open>
  The test: a handle on \<open>foo_ex1\<close> (42) is assigned \<open>foo_ex2\<close>, and is assigned from a
  handle on \<open>foo_ex2\<close>; it returns 43 on every call after.
\<close>

theorem C3_reassignment_replaces_witness:
  "(\<exists>b H'. Function_assign_callable \<lparr>impl_base = Some 0\<rparr> (FnPtr foo_ex2)
        [Some (func_impl (FnPtr foo_ex1)), Some (func_impl (FnPtr foo_ex2))
           :: (unit, unit, unit, unit, unit, int) func_impl option]
        = Inr (\<lparr>impl_base = Some b\<rparr>, H')
      \<and> heap_at H' 0 = None
      \<and> fst (Function_calls \<lparr>impl_base = Some b\<rparr> [(((), ()), ()), (((), ()), ())] H')
          = [Inr (Returned 43, ((), ()), ()), Inr (Returned 43, ((), ()), ())])
   \<and> (\<exists>b H'. Function_copy_assign \<lparr>impl_base = Some 0\<rparr> \<lparr>impl_base = Some 1\<rparr>
        [Some (func_impl (FnPtr foo_ex1)), Some (func_impl (FnPtr foo_ex2))
           :: (unit, unit, unit, unit, unit, int) func_impl option]
        = Inr (\<lparr>impl_base = Some b\<rparr>, H')
      \<and> heap_at H' 0 = None
      \<and> fst (Function_calls \<lparr>impl_base = Some b\<rparr> [(((), ()), ()), (((), ()), ())] H')
          = [Inr (Returned 43, ((), ()), ()), Inr (Returned 43, ((), ()), ())])"
proof -
  let ?old = "func_impl (FnPtr foo_ex1) :: (unit, unit, unit, unit, unit, int) func_impl"
  let ?new = "func_impl (FnPtr foo_ex2) :: (unit, unit, unit, unit, unit, int) func_impl"
  let ?H = "[Some ?old, Some ?new]"
  have h1: "impl_base \<lparr>impl_base = Some 0\<rparr> = Some 0" by simp
  have h2: "heap_at ?H 0 = Some ?old" by (simp add: heap_at_def)
  have h3: "impl_base \<lparr>impl_base = Some 1\<rparr> = Some 1" by simp
  have h4: "heap_at ?H 1 = Some ?new" by (simp add: heap_at_def)
  have run: "map Inr (func_impl_calls ?new [(((), ()), ()), (((), ()), ())])
      = ([Inr (Returned 43, ((), ()), ()), Inr (Returned 43, ((), ()), ())]
          :: (fault + ((unit, int) outcome \<times> (unit \<times> unit) \<times> unit)) list)"
    by (simp add: foo_ex2_def)
  from C3_reassignment_replaces [OF h1 h2 h3 h4, of "FnPtr foo_ex2"]
  obtain b H' c H'' where
    assign: "Function_assign_callable \<lparr>impl_base = Some 0\<rparr> (FnPtr foo_ex2) ?H
               = Inr (\<lparr>impl_base = Some b\<rparr>, H')"
      "heap_at H' 0 = None"
      "\<forall>calls. fst (Function_calls \<lparr>impl_base = Some b\<rparr> calls H')
                 = map Inr (func_impl_calls ?new calls)"
    and copy: "Function_copy_assign \<lparr>impl_base = Some 0\<rparr> \<lparr>impl_base = Some 1\<rparr> ?H
               = Inr (\<lparr>impl_base = Some c\<rparr>, H'')"
      "heap_at H'' 0 = None"
      "\<forall>calls. fst (Function_calls \<lparr>impl_base = Some c\<rparr> calls H'')
                 = map Inr (func_impl_calls ?new calls)"
    by blast
  have "fst (Function_calls \<lparr>impl_base = Some b\<rparr> [(((), ()), ()), (((), ()), ())] H')
      = [Inr (Returned 43, ((), ()), ()), Inr (Returned 43, ((), ()), ())]"
    using assign(3) run by (simp only:)
  moreover have "fst (Function_calls \<lparr>impl_base = Some c\<rparr> [(((), ()), ()), (((), ()), ())] H'')
      = [Inr (Returned 43, ((), ()), ()), Inr (Returned 43, ((), ()), ())]"
    using copy(3) run by (simp only:)
  ultimately show ?thesis
    using assign(1,2) copy(1,2) by blast
qed

text \<open>
  Claim C4: a call through an empty handle ends at the assertion, and for a handle that
  is not empty the assertion never fires: the call operator fails its \<open>assert\<close> exactly
  when the emptiness query \<open>operator bool\<close> says the handle is empty. A handle that holds
  an adapter reaches no fault at all: the call comes back from the adapter.
\<close>

theorem C4_assertion_iff_empty:
  "(Function_call this args H w = Inl AssertionFailed) = (\<not> Function_bool this)
   \<and> (\<forall>a impl. impl_base this = Some a \<and> heap_at H a = Some impl
         \<longrightarrow> (\<exists>res. Function_call this args H w = Inr res))"
  by (auto simp: Function_call_def Function_bool_def split: option.splits prod.splits)

text \<open>A default-constructed handle and a handle on \<open>foo_ex1\<close>.\<close>

theorem C4_assertion_iff_empty_witness:
  "Function_call Function_default ((), ())
      ([] :: (unit, unit, unit, unit, unit, int) func_impl heap) () = Inl AssertionFailed
   \<and> \<not> Function_bool Function_default
   \<and> Function_bool \<lparr>impl_base = Some 0\<rparr>
   \<and> Function_call \<lparr>impl_base = Some 0\<rparr> ((), ())
        [Some (func_impl (FnPtr foo_ex1)) :: (unit, unit, unit, unit, unit, int) func_impl option] ()
      \<noteq> Inl AssertionFailed
   \<and> (\<exists>res. Function_call \<lparr>impl_base = Some 0\<rparr> ((), ())
        [Some (func_impl (FnPtr foo_ex1)) :: (unit, unit, unit, unit, unit, int) func_impl option] ()
      = Inr res)"
  using C4_assertion_iff_empty [where this = Function_default and args = "((), ())"
      and H = "[] :: (unit, unit, unit, unit, unit, int) func_impl heap" and w = "()"]
    C4_assertion_iff_empty [where this = "\<lparr>impl_base = Some 0\<rparr>" and args = "((), ())"
      and H = "[Some (func_impl (FnPtr foo_ex1)) :: (unit, unit, unit, unit, unit, int) func_impl option]"
      and w = "()"]
  by (simp add: Function_bool_def Function_default_def heap_at_def)

text \<open>
  Claim C5: a call through a handle on a pointer to member function takes its first
  argument as the receiver and has the effect of calling the member function directly on
  that receiver.

  The code does not, for a receiver that is an instance: \<open>call\<close> takes the receiver by
  value (\<open>ClassType obj\<close>, next to \<open>Params&&... args\<close>), so the member function runs on a
  copy. With \<open>Function<void(Counter&)> f(&Counter::incr); Counter c; f(c);\<close> the caller's
  \<open>c.n\<close> is still 0 after the call, where \<open>c.incr()\<close> makes it 1. (\<open>Counter\<close> has the
  implicit copy constructor: passing it by value is \<open>trivial_copy\<close>.)
\<close>

theorem C5_receiver_is_copied:
  "(case Function_ctor (MemPtr trivial_copy Counter_incr) [] of
      (f, H) \<Rightarrow> call_result (Function_call f (\<lparr>n = 0\<rparr>, ()) H w))
     = Inr (Returned (), (\<lparr>n = 0\<rparr>, ()), w)
   \<and> direct_call (MemPtr trivial_copy Counter_incr) (\<lparr>n = 0\<rparr>, ()) w
     = (Returned (), MemPtr trivial_copy Counter_incr, (\<lparr>n = 1\<rparr>, ()), w)"
  by (simp add: Function_ctor_eq Function_call_def heap_at_def call_result_def call_def
      trivial_copy_def Counter_incr_def)

text \<open>
  Claim C6: a failure of the payload during a call through the handle reaches the caller
  unchanged, and the wrapper raises a failure exactly when the payload does, adding
  none of its own.

  The code does not, for a pointer to member function and a receiver that is an instance:
  \<open>call\<close> takes the receiver by value, so the wrapper runs the receiver's copy constructor
  before the member function, and a failure of that copy leaves the wrapper while the
  payload has not run. With
  \<open>Function<void(Fragile&)> f(&Fragile::touch); Fragile x; f(x);\<close> the call through the
  handle throws \<open>"copy"\<close>, where \<open>x.touch()\<close> returns. This is the by-value receiver of
  claim C5, seen in the outcome. For function pointers, for functors, and where passing
  the receiver by value gives the receiver and does nothing else, the outcome is that
  of the payload called directly (\<open>payload_outcome_through_handle\<close>).
\<close>

theorem C6_failure_of_receiver_copy:
  "(case Function_ctor (MemPtr Fragile_copy Fragile_touch) [] of
      (f, H) \<Rightarrow> call_result (Function_call f (Fragile, ()) H w))
     = Inr (Raised ''copy'', (Fragile, ()), w)
   \<and> direct_call (MemPtr Fragile_copy Fragile_touch) (Fragile, ()) w
     = (Returned (), MemPtr Fragile_copy Fragile_touch, (Fragile, ()), w)"
  by (simp add: Function_ctor_eq Function_call_def heap_at_def call_result_def call_def
      Fragile_copy_def Fragile_touch_def)

text \<open>
  Claim C7: a plain function that returns a fixed value, wrapped in a handle and called
  through it, returns that value.
\<close>

theorem C7_plain_function_value:
  assumes "\<forall>args w. fst (f args w) = Returned v"
  shows "case Function_ctor (FnPtr f) H of
           (h, H1) \<Rightarrow> \<exists>args' w'. Function_call h args H1 w = Inr (Returned v, args', H1, w')"
proof -
  have "fst (f args w) = Returned v" using assms by blast
  then show ?thesis
    by (cases "f args w")
      (simp add: Function_ctor_eq Function_call_FnPtr [where a = "length H"] heap_at_new)
qed

text \<open>The test: \<open>Function<int()> f(foo_ex1); f();\<close> returns 42.\<close>

theorem C7_plain_function_value_witness:
  "(\<forall>args w. fst ((foo_ex1 :: (unit \<times> unit, unit, unit, int) fn_ptr) args w) = Returned 42)
   \<and> (case Function_ctor (FnPtr foo_ex1)
             ([] :: (unit, unit, unit, unit, unit, int) func_impl heap) of
         (h, H1) \<Rightarrow> \<exists>args' w'. Function_call h ((), ()) H1 () = Inr (Returned 42, args', H1, w'))"
proof -
  have h: "\<forall>args w. fst ((foo_ex1 :: (unit \<times> unit, unit, unit, int) fn_ptr) args w) = Returned 42"
    by (simp add: foo_ex1_def)
  show ?thesis
    using h C7_plain_function_value [OF h, where H = "[] :: (unit, unit, unit, unit, unit, int) func_impl heap"
        and args = "((), ())" and w = "()"]
    by simp
qed

text \<open>
  Claim C8: a function that changes an argument passed by reference makes the same
  change when it is called through a handle: the outcome, the arguments afterwards and the
  world afterwards are those of the direct call \<open>f(args...)\<close>.
\<close>

theorem C8_reference_argument_mutation:
  "(case Function_ctor (FnPtr f) H of (h, H1) \<Rightarrow> call_result (Function_call h args H1 w))
     = Inr (f args w)"
  by (simp add: Function_ctor_eq Function_call_FnPtr [where a = "length H"] heap_at_new
      call_result_def case_prod_beta)

text \<open>The test: \<open>Function<void(int&)> f(foo_void); int i = 41; f(i);\<close> leaves 42 in \<open>i\<close>.\<close>

theorem C8_reference_argument_mutation_witness:
  "(case Function_ctor (FnPtr foo_void)
          ([] :: (int, unit, unit, unit, unit, unit) func_impl heap) of
      (h, H1) \<Rightarrow> call_result (Function_call h (41, ()) H1 ()))
   = Inr (Returned (), (42, ()), ())
   \<and> foo_void (41, ()) () = ((Returned (), (42, ()), ()) :: (unit, unit) outcome \<times> (int \<times> unit) \<times> unit)"
  using C8_reference_argument_mutation [where f = foo_void
      and H = "[] :: (int, unit, unit, unit, unit, unit) func_impl heap" and args = "(41, ())"
      and w = "()"]
  by (simp add: foo_void_def)

text \<open>
  Claim C9: a default-constructed handle reports empty, and a handle reports non-empty
  after a payload was assigned with success: when constructed from a payload, after
  \<open>operator=(Callable)\<close>, and after a copy assignment that returned.
\<close>

theorem C9_emptiness:
  "\<not> Function_bool Function_default
   \<and> Function_bool (fst (Function_ctor cb H))
   \<and> (\<forall>this' H'. Function_assign_callable this cb H = Inr (this', H') \<longrightarrow> Function_bool this')
   \<and> (\<forall>this' H'. Function_copy_assign this src H = Inr (this', H') \<longrightarrow> Function_bool this')"
  by (auto simp: Function_bool_def Function_default_def Function_ctor_eq
      Function_assign_callable_def Function_copy_assign_def Function_copy_def Function_assign_def
      clone_def heap_new_def unique_ptr_release_def unique_ptr_reset_def unique_ptr_destroy_def
      split: option.splits sum.splits prod.splits)

text \<open>Both assignments do return, here into a default-constructed handle.\<close>

theorem C9_emptiness_witness:
  "\<not> Function_bool Function_default
   \<and> Function_assign_callable Function_default (FnPtr foo_ex1)
        ([] :: (unit, unit, unit, unit, unit, int) func_impl heap)
      = Inr (\<lparr>impl_base = Some 0\<rparr>, [Some (func_impl (FnPtr foo_ex1))])
   \<and> Function_bool \<lparr>impl_base = Some 0\<rparr>
   \<and> Function_copy_assign Function_default \<lparr>impl_base = Some 0\<rparr>
        [Some (func_impl (FnPtr foo_ex2)) :: (unit, unit, unit, unit, unit, int) func_impl option]
      = Inr (\<lparr>impl_base = Some 1\<rparr>, [Some (func_impl (FnPtr foo_ex2)), Some (func_impl (FnPtr foo_ex2))])
   \<and> Function_bool \<lparr>impl_base = Some 1\<rparr>"
proof -
  have a: "Function_assign_callable Function_default (FnPtr foo_ex1)
        ([] :: (unit, unit, unit, unit, unit, int) func_impl heap)
      = Inr (\<lparr>impl_base = Some 0\<rparr>, [Some (func_impl (FnPtr foo_ex1))])"
    by (simp add: Function_assign_callable_def Function_default_def heap_new_def
        unique_ptr_release_def unique_ptr_reset_def unique_ptr_destroy_def)
  have c: "Function_copy_assign Function_default \<lparr>impl_base = Some 0\<rparr>
        [Some (func_impl (FnPtr foo_ex2)) :: (unit, unit, unit, unit, unit, int) func_impl option]
      = Inr (\<lparr>impl_base = Some 1\<rparr>, [Some (func_impl (FnPtr foo_ex2)), Some (func_impl (FnPtr foo_ex2))])"
    by (simp add: Function_copy_assign_def Function_copy_def Function_assign_def
        Function_default_def clone_def heap_new_def heap_at_def
        unique_ptr_release_def unique_ptr_reset_def unique_ptr_destroy_def)
  show ?thesis
    using a c
      C9_emptiness [where cb = "FnPtr foo_ex1"
        and H = "[] :: (unit, unit, unit, unit, unit, int) func_impl heap"
        and this = Function_default and src = "\<lparr>impl_base = Some 0\<rparr>"]
      C9_emptiness [where cb = "FnPtr foo_ex1"
        and H = "[Some (func_impl (FnPtr foo_ex2)) :: (unit, unit, unit, unit, unit, int) func_impl option]"
        and this = Function_default and src = "\<lparr>impl_base = Some 0\<rparr>"]
    by simp
qed

text \<open>
  Claim C10: the copy assignment \<open>h1 = h2\<close> from a non-empty handle \<open>h2\<close> into another
  handle leaves \<open>h2\<close> as it was. Where \<open>h1\<close> owns its adapter (or is empty) and the two
  handles do not own the same adapter, the assignment returns, \<open>h2\<close> is still non-empty,
  its adapter is the same, and every call through \<open>h2\<close> gives what it gave before.
\<close>

theorem C10_source_of_copy_assignment_unchanged:
  assumes "impl_base h2 = Some a2" and "heap_at H a2 = Some impl"
    and "Function_valid h1 H" and "impl_base h1 \<noteq> impl_base h2"
  shows "\<exists>h1' H'. Function_copy_assign h1 h2 H = Inr (h1', H')
           \<and> Function_bool h2
           \<and> heap_at H' a2 = Some impl
           \<and> (\<forall>args w. call_result (Function_call h2 args H' w)
                 = call_result (Function_call h2 args H w))"
proof (cases "impl_base h1")
  case None
  have "Function_copy_assign h1 h2 H = Inr (\<lparr>impl_base = Some (length H)\<rparr>, H @ [Some impl])"
    using None assms(1,2) by (rule Function_copy_assign_None)
  moreover have "heap_at (H @ [Some impl]) a2 = Some impl"
    using assms(2) heap_at_Some_length [OF assms(2)] by (simp add: heap_at_new)
  ultimately show ?thesis
    using assms(1,2) by (simp add: Function_bool_def call_result_Function_call)
next
  case (Some a1)
  then obtain old where old: "heap_at H a1 = Some old"
    using assms(3) by (auto simp: Function_valid_def)
  have ne: "a2 \<noteq> a1" using Some assms(1,4) by simp
  have "Function_copy_assign h1 h2 H
      = Inr (\<lparr>impl_base = Some (length H)\<rparr>, (H @ [Some impl])[a1 := None])"
    using Some old assms(1,2) by (rule Function_copy_assign_Some)
  moreover have "heap_at ((H @ [Some impl])[a1 := None]) a2 = Some impl"
    using assms(2) heap_at_Some_length [OF assms(2)] ne
    by (simp add: heap_at_replaced(3) [OF old])
  ultimately show ?thesis
    using assms(1,2) by (simp add: Function_bool_def call_result_Function_call)
qed

text \<open>The test's \<open>f1 = f2\<close>: \<open>f2\<close>, on \<open>foo_ex2\<close>, still returns 43.\<close>

theorem C10_source_of_copy_assignment_unchanged_witness:
  "Function_valid \<lparr>impl_base = Some 0\<rparr>
      [Some (func_impl (FnPtr foo_ex1)), Some (func_impl (FnPtr foo_ex2))
         :: (unit, unit, unit, unit, unit, int) func_impl option]
   \<and> (\<exists>h1' H'. Function_copy_assign \<lparr>impl_base = Some 0\<rparr> \<lparr>impl_base = Some 1\<rparr>
        [Some (func_impl (FnPtr foo_ex1)), Some (func_impl (FnPtr foo_ex2))
           :: (unit, unit, unit, unit, unit, int) func_impl option]
        = Inr (h1', H')
      \<and> heap_at H' 1 = Some (func_impl (FnPtr foo_ex2))
      \<and> call_result (Function_call \<lparr>impl_base = Some 1\<rparr> ((), ()) H' ())
          = Inr (Returned 43, ((), ()), ()))"
proof -
  let ?old = "func_impl (FnPtr foo_ex1) :: (unit, unit, unit, unit, unit, int) func_impl"
  let ?new = "func_impl (FnPtr foo_ex2) :: (unit, unit, unit, unit, unit, int) func_impl"
  let ?H = "[Some ?old, Some ?new]"
  have h1: "impl_base \<lparr>impl_base = Some 1\<rparr> = Some 1" by simp
  have h2: "heap_at ?H 1 = Some ?new" by (simp add: heap_at_def)
  have h3: "Function_valid \<lparr>impl_base = Some 0\<rparr> ?H"
    by (simp add: Function_valid_def heap_at_def)
  have h4: "impl_base \<lparr>impl_base = Some 0\<rparr> \<noteq> impl_base \<lparr>impl_base = Some 1\<rparr>" by simp
  have before: "call_result (Function_call \<lparr>impl_base = Some 1\<rparr> ((), ()) ?H ())
      = Inr (Returned 43, ((), ()), ())"
    by (simp add: Function_call_def heap_at_def call_result_def foo_ex2_def)
  show ?thesis
    using h3 before C10_source_of_copy_assignment_unchanged [OF h1 h2 h3 h4]
    by auto
qed

end
